theory Spec2Isabelle
  imports Complex_Main "HOL-Library.AList" "HOL-Library.Log_Nat"
begin

section \<open>Python effects: printed lines and exceptions\<close>

text \<open>
  \<^verbatim>\<open>configs/ruby/Ruby.py\<close> is a Python 2 configuration script. Its functions print
  lines, raise exceptions and leave the interpreter through \<^verbatim>\<open>sys.exit\<close>. A call is
  modelled by the lines it printed together with its outcome: \<open>Inl\<close> the exception that
  left the call, \<open>Inr\<close> the value it returned.
\<close>

datatype py_error =
    SystemExit int
  | AssertionError
  | ValueError
  | AttributeError
  | ImportError string
  | NameError string
  | Raised string

type_synonym 'a io = "string list \<times> (py_error + 'a)"

definition return_io :: "'a \<Rightarrow> 'a io" where
  "return_io x = ([], Inr x)"

definition raise_io :: "py_error \<Rightarrow> 'a io" where
  "raise_io e = ([], Inl e)"

definition print_io :: "string \<Rightarrow> unit io" where
  "print_io line = ([line], Inr ())"

definition bind_io :: "'a io \<Rightarrow> ('a \<Rightarrow> 'b io) \<Rightarrow> 'b io" where
  "bind_io m f =
     (case m of
        (out, Inl e) \<Rightarrow> (out, Inl e)
      | (out, Inr x) \<Rightarrow> (case f x of (out', r) \<Rightarrow> (out @ out', r)))"

definition outcome :: "'a io \<Rightarrow> py_error + 'a" where
  "outcome m = snd m"

text \<open>
  Whether an exception carries a message. The exception of a bare \<^verbatim>\<open>assert\<close> has no
  arguments, and \<^verbatim>\<open>SystemExit\<close> only an exit status; the exceptions that the interpreter
  and the library raise themselves come with their text, and \<open>Raised\<close> stands for an
  exception of the protocol module with the text it was given.
\<close>

fun carries_message :: "py_error \<Rightarrow> bool" where
  "carries_message AssertionError = False"
| "carries_message (SystemExit status) = False"
| "carries_message (Raised text) = (text \<noteq> [])"
| "carries_message ValueError = True"
| "carries_message AttributeError = True"
| "carries_message (ImportError name) = True"
| "carries_message (NameError name) = True"

section \<open>The registry of memory-controller classes\<close>

text \<open>
  The members of the module \<^verbatim>\<open>m5.objects\<close> are not part of the script; they are a
  parameter, the list of (name, value) pairs that \<^verbatim>\<open>inspect.getmembers\<close> walks.
  Of a member only what the script looks at is kept: whether it is a class, and then
  whether it is a subclass of \<^verbatim>\<open>MemoryControl\<close> and its \<^verbatim>\<open>abstract\<close> flag; or whether it is
  a module, and then which one.
\<close>

datatype m5_object =
    M5Class (class_name: string) (subclass_of_MemoryControl: bool) (abstract: bool)
  | PyModule string
  | NotAClass

text \<open>
  \<^verbatim>\<open>issubclass(cls, m5.objects.MemoryControl) and not cls.abstract\<close>; on a value that
  is not a class \<^verbatim>\<open>issubclass\<close> raises \<^verbatim>\<open>TypeError\<close>, which the function turns into
  \<^verbatim>\<open>False\<close>.
\<close>

fun is_ruby_mem_class :: "m5_object \<Rightarrow> bool" where
  "is_ruby_mem_class (M5Class n sub abstr) = (sub \<and> \<not> abstr)"
| "is_ruby_mem_class (PyModule n) = False"
| "is_ruby_mem_class NotAClass = False"

text \<open>
  A Python dictionary is an association list with one entry per key; \<^verbatim>\<open>d[k] = v\<close> is
  \<^const>\<open>AList.update\<close>, \<^verbatim>\<open>k in d\<close> and \<^verbatim>\<open>d[k]\<close> read it through \<^const>\<open>map_of\<close>,
  \<^verbatim>\<open>d.keys()\<close> lists the first components. (The order in which Python 2 lists the keys is
  not fixed by the language; nothing below depends on it.)
\<close>

type_synonym 'v dict = "(string \<times> 'v) list"

definition dict_has :: "'v dict \<Rightarrow> string \<Rightarrow> bool" where
  "dict_has d k = (map_of d k \<noteq> None)"

definition dict_get :: "'v dict \<Rightarrow> string \<Rightarrow> 'v \<Rightarrow> 'v" where
  "dict_get d k dflt = (case map_of d k of Some v \<Rightarrow> v | None \<Rightarrow> dflt)"

definition keys :: "'v dict \<Rightarrow> string list" where
  "keys d = map fst d"

definition getmembers :: "(string \<times> 'a) list \<Rightarrow> ('a \<Rightarrow> bool) \<Rightarrow> (string \<times> 'a) list" where
  "getmembers members predicate = filter (\<lambda>(name, v). predicate v) members"

text \<open>
  \<^verbatim>\<open>for name, cls in inspect.getmembers(m5.objects, is_ruby_mem_class):\<close>
  \<^verbatim>\<open>    _ruby_mem_classes[name] = cls\<close>
\<close>

definition ruby_mem_classes :: "(string \<times> m5_object) list \<Rightarrow> m5_object dict" where
  "ruby_mem_classes m5_objects =
     fold (\<lambda>(name, cls) d. AList.update name cls d)
          (getmembers m5_objects is_ruby_mem_class) []"

text \<open>
  An alias names one target, or a tuple of targets in priority order (the loop handles
  both, the table of this script holds only the first kind).
\<close>

datatype alias_target = Target string | Targets "string list"

definition ruby_mem_aliases_all :: "(string \<times> alias_target) list" where
  "ruby_mem_aliases_all =
     [(''ruby'', Target ''RubyMemoryControl''),
      (''nvmain'', Target ''NVMMemoryControl'')]"

text \<open>The inner loop over a tuple of targets: the first one that is registered, if any.\<close>

fun first_registered :: "string list \<Rightarrow> 'v dict \<Rightarrow> string option" where
  "first_registered [] classes = None"
| "first_registered (t # ts) classes =
     (if dict_has classes t then Some t else first_registered ts classes)"

definition add_alias :: "'v dict \<Rightarrow> string \<times> alias_target \<Rightarrow> string dict \<Rightarrow> string dict" where
  "add_alias classes = (\<lambda>(alias, target) aliases.
     case target of
       Targets ts \<Rightarrow>
         (case first_registered ts classes of
            Some t \<Rightarrow> AList.update alias t aliases
          | None \<Rightarrow> aliases)
     | Target t \<Rightarrow>
         (if dict_has classes t then AList.update alias t aliases else aliases))"

definition ruby_mem_aliases :: "(string \<times> m5_object) list \<Rightarrow> string dict" where
  "ruby_mem_aliases m5_objects =
     fold (add_alias (ruby_mem_classes m5_objects)) ruby_mem_aliases_all []"

definition ruby_mem_names :: "(string \<times> m5_object) list \<Rightarrow> string list" where
  "ruby_mem_names m5_objects =
     keys (ruby_mem_classes m5_objects) @ keys (ruby_mem_aliases m5_objects)"

text \<open>
  \<^verbatim>\<open>sys.exit(status)\<close>. The script has no \<^verbatim>\<open>import sys\<close>: the name \<^verbatim>\<open>sys\<close> is bound in
  it only if \<^verbatim>\<open>from m5.objects import *\<close> brings it, that is, if \<^verbatim>\<open>m5.objects\<close> has a
  member of that name (the last entry of the name counts, as in the registry). Unbound,
  the call raises \<^verbatim>\<open>NameError\<close>; bound to the module \<^verbatim>\<open>sys\<close>, it raises
  \<^verbatim>\<open>SystemExit\<close>; bound to anything else, the attribute \<^verbatim>\<open>exit\<close> is missing.
\<close>

definition sys_exit_raises :: "(string \<times> m5_object) list \<Rightarrow> int \<Rightarrow> py_error" where
  "sys_exit_raises m5_objects status =
     (case map_of (rev m5_objects) ''sys'' of
        None \<Rightarrow> NameError ''sys''
      | Some (PyModule n) \<Rightarrow> (if n = ''sys'' then SystemExit status else AttributeError)
      | Some (M5Class n sub abstr) \<Rightarrow> AttributeError
      | Some NotAClass \<Rightarrow> AttributeError)"

definition sys_exit :: "(string \<times> m5_object) list \<Rightarrow> int \<Rightarrow> 'a io" where
  "sys_exit m5_objects status = raise_io (sys_exit_raises m5_objects status)"

text \<open>
  \<^verbatim>\<open>get_ruby_mem_class\<close>: the \<^verbatim>\<open>KeyError\<close> of the lookup is caught, a line is printed
  and \<^verbatim>\<open>sys.exit(1)\<close> is called.
\<close>

definition get_ruby_mem_class :: "(string \<times> m5_object) list \<Rightarrow> string \<Rightarrow> m5_object io" where
  "get_ruby_mem_class m5_objects name =
     (let real_name = dict_get (ruby_mem_aliases m5_objects) name name
      in case map_of (ruby_mem_classes m5_objects) real_name of
           Some ruby_mem_class \<Rightarrow> return_io ruby_mem_class
         | None \<Rightarrow>
             bind_io (print_io (name @ '' is not a valid memory controller.''))
                     (\<lambda>_. sys_exit m5_objects 1))"

text \<open>
  Two small \<^verbatim>\<open>m5.objects\<close> namespaces to run the definitions on: one that exports the
  module \<^verbatim>\<open>sys\<close> (as a namespace does when one of its object files imports it), and the
  same without it.
\<close>

definition example_m5_objects_without_sys :: "(string \<times> m5_object) list" where
  "example_m5_objects_without_sys =
     [(''MemoryControl'', M5Class ''MemoryControl'' True True),
      (''NVMMemoryControl'', M5Class ''NVMMemoryControl'' True False),
      (''RubyMemoryControl'', M5Class ''RubyMemoryControl'' True False),
      (''RubySystem'', M5Class ''RubySystem'' False False),
      (''buildEnv'', NotAClass)]"

definition example_m5_objects :: "(string \<times> m5_object) list" where
  "example_m5_objects = example_m5_objects_without_sys @ [(''sys'', PyModule ''sys'')]"

section \<open>The objects that \<^verbatim>\<open>create_system\<close> wires together\<close>

text \<open>
  The options are the attributes of the parsed command line that \<^verbatim>\<open>create_system\<close>
  reads. \<^verbatim>\<open>--garnet-network\<close> is a choice without a default, so it may be \<^verbatim>\<open>None\<close>.
\<close>

record options =
  use_map :: bool
  num_dirs :: int
  ruby_mem_type :: string
  garnet_network :: "string option"
  network_fault_model :: bool
  cacheline_size :: int
  numa_high_bit :: int
  random_seed :: int

datatype port = Port string

record piobus =
  slave :: port
  master :: port

record sequencer =
  pio_master_port :: "port option"
  mem_master_port :: "port option"
  pio_slave_port :: "port option"

text \<open>A memory controller built in the loop: \<^verbatim>\<open>mem_cntrl_class(version = i, ruby_system = ruby)\<close>.\<close>

record mem_cntrl =
  mem_cntrl_class :: m5_object
  version :: int

text \<open>
  A directory controller, with what the script reads and writes of it:
  \<^verbatim>\<open>directory.size.value\<close>, \<^verbatim>\<open>directory.numa_high_bit\<close> and \<^verbatim>\<open>memBuffer\<close>.
  Controllers are Python objects reached both from the list the protocol returns and
  from the attributes \<^verbatim>\<open>ruby.dir_cntrl0\<close>, \<^verbatim>\<open>ruby.dir_cntrl1\<close>, ...; they live in a store
  addressed by object identity.
\<close>

record dir_cntrl =
  directory_size :: int
  directory_numa_high_bit :: "int option"
  memBuffer :: "mem_cntrl option"

type_synonym ref = nat
type_synonym store = "ref \<Rightarrow> dir_cntrl"

datatype network_class = GarnetNetwork_d | GarnetNetwork | SimpleNetwork
datatype int_link_class = GarnetIntLink_d | GarnetIntLink | SimpleIntLink
datatype ext_link_class = GarnetExtLink_d | GarnetExtLink | SimpleExtLink
datatype router_class = GarnetRouter_d | GarnetRouter | Switch
datatype interface_class = GarnetNetworkInterface_d | GarnetNetworkInterface
datatype fault_model_object = FaultModel
datatype ruby_port_proxy = RubyPortProxy

record network_object =
  network_class :: network_class
  topology_description :: string
  routers :: "(router_class \<times> int) list"
  ext_links :: "(ext_link_class \<times> int) list"
  int_links :: "(int_link_class \<times> int) list"
  netifs :: "(interface_class \<times> int) list"
  enable_fault_model :: "bool option"
  fault_model :: "fault_model_object option"

text \<open>
  The topology object comes from the protocol module. Its \<^verbatim>\<open>makeTopology\<close> fills the
  network with routers and links; it is a parameter of the model and may raise.
\<close>

record topology_object =
  description :: string
  makeTopology ::
    "options \<Rightarrow> network_object \<Rightarrow> int_link_class \<Rightarrow> ext_link_class \<Rightarrow> router_class
       \<Rightarrow> network_object io"

text \<open>
  The \<^verbatim>\<open>RubySystem\<close> object. Parameters that this script has not assigned are \<open>None\<close>;
  \<open>dir_cntrl i\<close> is the attribute \<^verbatim>\<open>dir_cntrl<i>\<close>, set (or not) by the protocol module.
\<close>

record ruby_system =
  no_mem_vec :: bool
  dir_cntrl :: "int \<Rightarrow> ref option"
  block_size_bytes :: "int option"
  network :: "network_object option"
  mem_size :: "int option"
  cpu_ports :: "sequencer list"
  num_of_sequencers :: "int option"
  ruby_random_seed :: "int option"

definition RubySystem :: "bool \<Rightarrow> ruby_system" where
  "RubySystem nmv =
     \<lparr>no_mem_vec = nmv, dir_cntrl = (\<lambda>i. None), block_size_bytes = None, network = None,
      mem_size = None, cpu_ports = [], num_of_sequencers = None, ruby_random_seed = None\<rparr>"

text \<open>A memory range is known to the script only through \<^verbatim>\<open>r.size()\<close>.\<close>

record addr_range =
  range_size :: int

record system_object =
  mem_ranges :: "addr_range list"
  sys_port_proxy :: "ruby_port_proxy option"
  system_port :: "port option"

text \<open>
  What the protocol module's \<^verbatim>\<open>create_system(options, system, dma_ports, ruby)\<close>
  hands back: the triple it returns, the \<^verbatim>\<open>ruby\<close> object as it left it, and the store
  of the directory controllers it built. The outer \<^verbatim>\<open>system\<close> object is taken as the
  protocol module found it.
\<close>

record protocol_system =
  cpu_sequencers :: "sequencer list"
  dir_cntrls :: "ref list"
  topology :: topology_object
  protocol_ruby :: ruby_system
  protocol_store :: store

type_synonym protocol_module =
  "options \<Rightarrow> system_object \<Rightarrow> port list \<Rightarrow> ruby_system \<Rightarrow> protocol_system io"

text \<open>
  The surroundings of the script: \<^verbatim>\<open>buildEnv\<close>, the namespace of \<^verbatim>\<open>m5.objects\<close>, the
  modules an \<^verbatim>\<open>import\<close> statement finds (a protocol module is its \<^verbatim>\<open>create_system\<close>),
  and the library function \<^verbatim>\<open>math.log\<close>: \<open>math_log env x b\<close> is the double that
  \<^verbatim>\<open>math.log(x, b)\<close> returns on a positive \<open>x\<close>, the rounded quotient of two rounded
  natural logarithms. It is a parameter, like the other things the script only calls.
\<close>

record environment =
  buildEnv_PROTOCOL :: string
  buildEnv_TARGET_ISA :: string
  objects :: "(string \<times> m5_object) list"
  importable :: "string \<Rightarrow> protocol_module option"
  math_log :: "int \<Rightarrow> int \<Rightarrow> real"

text \<open>
  On return \<^verbatim>\<open>create_system\<close> has changed the objects it was given: the outer system,
  \<^verbatim>\<open>system.ruby\<close> and the directory controllers.
\<close>

record world =
  final_system :: system_object
  final_ruby :: ruby_system
  final_store :: store

section \<open>\<^verbatim>\<open>create_system\<close>\<close>

fun for_io :: "'i list \<Rightarrow> ('i \<Rightarrow> 's \<Rightarrow> 's io) \<Rightarrow> 's \<Rightarrow> 's io" where
  "for_io [] body s = return_io s"
| "for_io (i # rest) body s = bind_io (body i s) (for_io rest body)"

definition xrange :: "int \<Rightarrow> int list" where
  "xrange n = [0..n - 1]"

text \<open>
  Lines 194 to 205: the \<^verbatim>\<open>RubySystem\<close> is built, the protocol module is imported
  (\<^verbatim>\<open>ImportError\<close> when there is none) and its \<^verbatim>\<open>create_system\<close> is called under a bare
  \<^verbatim>\<open>except:\<close> that prints one line and re-raises.
\<close>

definition construct_protocol ::
  "environment \<Rightarrow> options \<Rightarrow> system_object \<Rightarrow> port list \<Rightarrow> protocol_system io" where
  "construct_protocol env options system dma_ports =
     (let ruby = RubySystem (use_map options);
          protocol = buildEnv_PROTOCOL env
      in case importable env protocol of
           None \<Rightarrow> raise_io (ImportError protocol)
         | Some protocol_create_system \<Rightarrow>
             (case protocol_create_system options system dma_ports ruby of
                (out, Inl e) \<Rightarrow>
                  bind_io (out, Inr ())
                    (\<lambda>_. bind_io
                       (print_io (''Error: could not create sytem for ruby protocol '' @ protocol))
                       (\<lambda>_. raise_io e))
              | (out, Inr r) \<Rightarrow> (out, Inr r)))"

text \<open>
  Lines 208 to 214, one round of the loop over \<^verbatim>\<open>xrange(options.num_dirs)\<close>. The
  assignment through \<^verbatim>\<open>ruby.dir_cntrl<i>\<close> raises \<^verbatim>\<open>AttributeError\<close> when the protocol
  module has set no such attribute.
\<close>

definition override_memBuffer ::
  "environment \<Rightarrow> options \<Rightarrow> int \<Rightarrow> ruby_system \<times> store \<Rightarrow> (ruby_system \<times> store) io" where
  "override_memBuffer env options i = (\<lambda>(ruby, heap).
     bind_io (print_io (''Changing memory type to '' @ ruby_mem_type options)) (\<lambda>_.
     bind_io (get_ruby_mem_class (objects env) (ruby_mem_type options)) (\<lambda>cls.
       let new_mem_cntrl = \<lparr>mem_cntrl_class = cls, version = i\<rparr>;
           ruby1 = ruby\<lparr>no_mem_vec := False\<rparr>
       in case dir_cntrl ruby1 i of
            None \<Rightarrow> raise_io AttributeError
          | Some r \<Rightarrow>
              return_io (ruby1, heap(r := (heap r)\<lparr>memBuffer := Some new_mem_cntrl\<rparr>)))))"

text \<open>Lines 219 to 225.\<close>

definition connect_system_port :: "system_object \<Rightarrow> system_object" where
  "connect_system_port system =
     system\<lparr>sys_port_proxy := Some RubyPortProxy,
             system_port := Some (Port ''system.sys_port_proxy.slave'')\<rparr>"

text \<open>Lines 231 to 250: the classes chosen by \<^verbatim>\<open>options.garnet_network\<close>.\<close>

definition network_classes ::
  "string option \<Rightarrow>
     network_class \<times> int_link_class \<times> ext_link_class \<times> router_class \<times> interface_class option" where
  "network_classes g =
     (if g = Some ''fixed'' then
        (GarnetNetwork_d, GarnetIntLink_d, GarnetExtLink_d, GarnetRouter_d,
         Some GarnetNetworkInterface_d)
      else if g = Some ''flexible'' then
        (GarnetNetwork, GarnetIntLink, GarnetExtLink, GarnetRouter,
         Some GarnetNetworkInterface)
      else
        (SimpleNetwork, SimpleIntLink, SimpleExtLink, Switch, None))"

text \<open>
  Lines 254 to 261: the network is built, filled by the topology, and gets one
  interface per external link when the variant has an interface class.
\<close>

definition build_network :: "options \<Rightarrow> topology_object \<Rightarrow> network_object io" where
  "build_network options topo =
     (case network_classes (garnet_network options) of
        (NetworkClass, IntLinkClass, ExtLinkClass, RouterClass, InterfaceClass) \<Rightarrow>
          bind_io
            (makeTopology topo options
               \<lparr>network_class = NetworkClass, topology_description = description topo,
                routers = [], ext_links = [], int_links = [], netifs = [],
                enable_fault_model = None, fault_model = None\<rparr>
               IntLinkClass ExtLinkClass RouterClass)
            (\<lambda>net.
               case InterfaceClass of
                 None \<Rightarrow> return_io net
               | Some cls \<Rightarrow>
                   return_io
                     (net\<lparr>netifs :=
                        map (\<lambda>(i, n). (cls, int i)) (enumerate 0 (ext_links net))\<rparr>)))"

text \<open>
  Lines 263 to 266: when the fault model is asked for, the \<^verbatim>\<open>assert\<close> on the network
  variant runs, and only then is the fault model switched on and attached.
\<close>

definition attach_fault_model :: "options \<Rightarrow> network_object \<Rightarrow> network_object io" where
  "attach_fault_model options net =
     (if network_fault_model options then
        (if garnet_network options = Some ''fixed'' then
           return_io (net\<lparr>enable_fault_model := Some True, fault_model := Some FaultModel\<rparr>)
         else raise_io AssertionError)
      else return_io net)"

definition create_network :: "options \<Rightarrow> topology_object \<Rightarrow> network_object io" where
  "create_network options topo =
     bind_io (build_network options topo) (attach_fault_model options)"

text \<open>\<^verbatim>\<open>int(r)\<close> on a float: truncation towards zero.\<close>

definition py_int :: "real \<Rightarrow> int" where
  "py_int r = (if 0 \<le> r then \<lfloor>r\<rfloor> else \<lceil>r\<rceil>)"

text \<open>
  \<^verbatim>\<open>int(math.log(x, 2))\<close>. \<^verbatim>\<open>math.log\<close> raises \<^verbatim>\<open>ValueError\<close> on an argument that is
  not positive; otherwise the double it returns is truncated.
\<close>

definition py_int_log2 :: "environment \<Rightarrow> int \<Rightarrow> int io" where
  "py_int_log2 env x =
     (if x \<le> 0 then raise_io ValueError else return_io (py_int (math_log env x 2)))"

text \<open>Lines 279 to 288.\<close>

definition compute_numa_bit :: "environment \<Rightarrow> options \<Rightarrow> int io" where
  "compute_numa_bit env options =
     bind_io (py_int_log2 env (cacheline_size options)) (\<lambda>block_size_bits.
       if numa_high_bit options \<noteq> 0 then return_io (numa_high_bit options)
       else bind_io (py_int_log2 env (num_dirs options)) (\<lambda>dir_bits.
              return_io (block_size_bits + dir_bits - 1)))"

text \<open>Lines 290 to 292, one round of the loop over \<^verbatim>\<open>dir_cntrls\<close>.\<close>

definition visit_dir_cntrl :: "int \<Rightarrow> ref \<Rightarrow> int \<times> store \<Rightarrow> int \<times> store" where
  "visit_dir_cntrl numa_bit r = (\<lambda>(total_mem_size, heap).
     (total_mem_size + directory_size (heap r),
      heap(r := (heap r)\<lparr>directory_numa_high_bit := Some numa_bit\<rparr>)))"

text \<open>The local variables of \<^verbatim>\<open>create_system\<close> when line 294 is reached.\<close>

record locals =
  l_system :: system_object
  l_ruby :: ruby_system
  l_store :: store
  l_network :: network_object
  l_cpu_sequencers :: "sequencer list"
  l_total_mem_size :: int

text \<open>Lines 194 to 292.\<close>

definition create_system_to_sum ::
  "environment \<Rightarrow> options \<Rightarrow> system_object \<Rightarrow> port list \<Rightarrow> locals io" where
  "create_system_to_sum env options system dma_ports =
     bind_io (construct_protocol env options system dma_ports) (\<lambda>p.
     bind_io (for_io (xrange (num_dirs options)) (override_memBuffer env options)
                (protocol_ruby p, protocol_store p)) (\<lambda>(ruby, heap).
     bind_io (create_network options (topology p)) (\<lambda>net.
     bind_io (compute_numa_bit env options) (\<lambda>numa_bit.
       case fold (visit_dir_cntrl numa_bit) (dir_cntrls p) (0, heap) of
         (total_mem_size, heap1) \<Rightarrow>
           return_io
             \<lparr>l_system = connect_system_port system,
              l_ruby = ruby\<lparr>block_size_bytes := Some (cacheline_size options)\<rparr>,
              l_store = heap1,
              l_network = net,
              l_cpu_sequencers = cpu_sequencers p,
              l_total_mem_size = total_mem_size\<rparr>))))"

text \<open>Lines 301 to 307: every sequencer is connected to the bus, when there is one.\<close>

definition connect_piobus :: "environment \<Rightarrow> piobus option \<Rightarrow> sequencer \<Rightarrow> sequencer" where
  "connect_piobus env bus cpu_seq =
     (case bus of
        None \<Rightarrow> cpu_seq
      | Some b \<Rightarrow>
          (let s1 = cpu_seq\<lparr>pio_master_port := Some (slave b), mem_master_port := Some (slave b)\<rparr>
           in if buildEnv_TARGET_ISA env = ''x86''
              then s1\<lparr>pio_slave_port := Some (master b)\<rparr> else s1))"

text \<open>Lines 294 to 311: the \<^verbatim>\<open>assert\<close> on the memory size, and the final assignments.\<close>

definition create_system_from_check ::
  "environment \<Rightarrow> options \<Rightarrow> piobus option \<Rightarrow> locals \<Rightarrow> world io" where
  "create_system_from_check env options bus l =
     (let phys_mem_size = sum_list (map range_size (mem_ranges (l_system l)))
      in if l_total_mem_size l \<noteq> phys_mem_size then raise_io AssertionError
         else
           (let seqs = map (connect_piobus env bus) (l_cpu_sequencers l)
            in return_io
                 \<lparr>final_system = l_system l,
                  final_ruby = (l_ruby l)
                    \<lparr>network := Some (l_network l),
                     mem_size := Some (l_total_mem_size l),
                     cpu_ports := seqs,
                     num_of_sequencers := Some (int (length seqs)),
                     ruby_random_seed := Some (random_seed options)\<rparr>,
                  final_store = l_store l\<rparr>))"

definition create_system ::
  "environment \<Rightarrow> options \<Rightarrow> system_object \<Rightarrow> piobus option \<Rightarrow> port list \<Rightarrow> world io" where
  "create_system env options system bus dma_ports =
     bind_io (create_system_to_sum env options system dma_ports)
             (create_system_from_check env options bus)"

section \<open>A protocol module and an outer system to run \<^verbatim>\<open>create_system\<close> on\<close>

text \<open>
  A topology that builds one router and one external link per directory, and a protocol
  module that builds one sequencer and \<^verbatim>\<open>options.num_dirs\<close> directories of 256 bytes,
  registered as \<^verbatim>\<open>ruby.dir_cntrl0\<close>, \<^verbatim>\<open>ruby.dir_cntrl1\<close>, ...
\<close>

definition example_topology :: topology_object where
  "example_topology =
     \<lparr>description = ''Crossbar'',
      makeTopology = (\<lambda>options net IntLinkClass ExtLinkClass RouterClass.
        return_io (net\<lparr>routers := [(RouterClass, 0)],
                        ext_links := map (\<lambda>i. (ExtLinkClass, i)) (xrange (num_dirs options)),
                        int_links := [(IntLinkClass, 0)]\<rparr>))\<rparr>"

definition example_protocol :: protocol_module where
  "example_protocol options system dma_ports ruby =
     return_io
       \<lparr>cpu_sequencers =
          [\<lparr>pio_master_port = None, mem_master_port = None, pio_slave_port = None\<rparr>],
        dir_cntrls = map nat (xrange (num_dirs options)),
        topology = example_topology,
        protocol_ruby =
          ruby\<lparr>dir_cntrl :=
            (\<lambda>i. if 0 \<le> i \<and> i < num_dirs options then Some (nat i) else None)\<rparr>,
        protocol_store =
          (\<lambda>r. \<lparr>directory_size = 256, directory_numa_high_bit = None, memBuffer = None\<rparr>)\<rparr>"

text \<open>A protocol module whose construction prints a line and raises.\<close>

definition failing_protocol :: protocol_module where
  "failing_protocol options system dma_ports ruby =
     bind_io (print_io ''building caches'') (\<lambda>_. raise_io (Raised ''no such cache''))"

text \<open>
  The doubles that \<^verbatim>\<open>math.log(x, b)\<close> returns, as far as the runs below need them. At a
  power of the base the double is the exact logarithm (\<^verbatim>\<open>math.log(64, 2)\<close> is \<^verbatim>\<open>6.0\<close>,
  \<^verbatim>\<open>math.log(2, 2)\<close> is \<^verbatim>\<open>1.0\<close>). At \<^verbatim>\<open>math.log(2**48 - 1, 2)\<close> it is \<^verbatim>\<open>48.0\<close>: the
  quotient of the two rounded natural logarithms rounds up to 48, although the exact
  logarithm is below 48. Elsewhere the exact logarithm stands for the double.
\<close>

definition double_log :: "int \<Rightarrow> int \<Rightarrow> real" where
  "double_log x b =
     (if x = 2 ^ 48 - 1 \<and> b = 2 then 48 else log (real_of_int b) (real_of_int x))"

definition example_env :: "string \<Rightarrow> environment" where
  "example_env protocol =
     \<lparr>buildEnv_PROTOCOL = protocol,
      buildEnv_TARGET_ISA = ''x86'',
      objects = example_m5_objects,
      importable = (\<lambda>name.
        if name = ''MESI_CMP_directory'' then Some example_protocol
        else if name = ''Broken'' then Some failing_protocol
        else None),
      math_log = double_log\<rparr>"

definition example_options :: options where
  "example_options =
     \<lparr>use_map = True, num_dirs = 2, ruby_mem_type = ''nvmain'',
      garnet_network = Some ''fixed'', network_fault_model = True,
      cacheline_size = 64, numa_high_bit = 0, random_seed = 1234\<rparr>"

text \<open>The same options with the flexible network variant, and with an odd line size.\<close>

definition flexible_options :: options where
  "flexible_options = example_options\<lparr>garnet_network := Some ''flexible''\<rparr>"

definition odd_line_options :: options where
  "odd_line_options = example_options\<lparr>cacheline_size := 2 ^ 48 - 1\<rparr>"


definition example_system :: "int \<Rightarrow> system_object" where
  "example_system bytes =
     \<lparr>mem_ranges = [\<lparr>range_size = bytes\<rparr>], sys_port_proxy = None, system_port = None\<rparr>"

section \<open>The sequencer of the simulation core\<close>

text \<open>
  Modelled from the spec: the sequencer, whose implementation is native code that the
  configuration script only instantiates. Section 4.4 gives its contract,
  \<^verbatim>\<open>issue(core id, address, access kind) -> Transaction handle\<close>, with at most N
  outstanding transactions per core and \<^verbatim>\<open>SequencerBusy\<close> beyond; section 3 gives the
  transaction (address, initiating sequencer, outstanding-message count, completion
  state), created by \<^verbatim>\<open>issue\<close> and destroyed on completion; section 7 gives the errors
  and which of them are fatal.
\<close>

datatype access_kind = Load | Store | Atomic

datatype sim_error = ConfigurationError | ProtocolViolation | SequencerBusy | LinkSaturated

fun fatal :: "sim_error \<Rightarrow> bool" where
  "fatal ConfigurationError = True"
| "fatal ProtocolViolation = True"
| "fatal SequencerBusy = False"
| "fatal LinkSaturated = False"

record transaction =
  address :: nat
  initiator :: nat
  access :: access_kind
  outstanding_messages :: nat
  completed :: bool

record sequencer_state =
  outstanding_limit :: nat
  transactions :: "transaction list"

definition outstanding :: "sequencer_state \<Rightarrow> nat \<Rightarrow> nat" where
  "outstanding s core = length (filter (\<lambda>t. initiator t = core) (transactions s))"

definition issue ::
  "sequencer_state \<Rightarrow> nat \<Rightarrow> nat \<Rightarrow> access_kind \<Rightarrow> sim_error + transaction \<times> sequencer_state" where
  "issue s core addr kind =
     (if outstanding s core < outstanding_limit s then
        (let t = \<lparr>address = addr, initiator = core, access = kind,
                  outstanding_messages = 1, completed = False\<rparr>
         in Inr (t, s\<lparr>transactions := transactions s @ [t]\<rparr>))
      else Inl SequencerBusy)"

section \<open>Facts about the registry\<close>

lemma map_of_fold_update:
  "map_of (fold (\<lambda>(name, cls) d. AList.update name cls d) xs d0) k =
     (case map_of (rev xs) k of Some v \<Rightarrow> Some v | None \<Rightarrow> map_of d0 k)"
proof (induction xs arbitrary: d0)
  case Nil
  then show ?case by simp
next
  case (Cons x xs)
  obtain n c where x: "x = (n, c)" by (cases x)
  show ?case
    by (simp add: x Cons.IH update_conv' map_add_def split: option.splits)
qed

lemma ruby_mem_classes_sound:
  assumes "map_of (ruby_mem_classes objs) k = Some c"
  shows "is_ruby_mem_class c"
proof -
  from assms have "map_of (rev (getmembers objs is_ruby_mem_class)) k = Some c"
    by (simp add: ruby_mem_classes_def map_of_fold_update split: option.splits)
  then have "(k, c) \<in> set (getmembers objs is_ruby_mem_class)"
    using map_of_SomeD by fastforce
  then show ?thesis by (simp add: getmembers_def)
qed

lemma ruby_mem_aliases_cases:
  "map_of (ruby_mem_aliases objs) a =
     (if a = ''nvmain'' \<and> dict_has (ruby_mem_classes objs) ''NVMMemoryControl''
        then Some ''NVMMemoryControl''
      else if a = ''ruby'' \<and> dict_has (ruby_mem_classes objs) ''RubyMemoryControl''
        then Some ''RubyMemoryControl''
      else None)"
  by (simp add: ruby_mem_aliases_def ruby_mem_aliases_all_def add_alias_def update_conv')

lemma in_keys_iff: "k \<in> set (keys d) \<longleftrightarrow> dict_has d k"
  by (simp add: keys_def dict_has_def map_of_eq_None_iff)


lemma get_ruby_mem_class_alias:
  assumes "map_of (ruby_mem_aliases objs) a = Some t"
  shows "dict_has (ruby_mem_classes objs) t"
    and "map_of (ruby_mem_aliases objs) t = None"
  using assms
  by (auto simp: ruby_mem_aliases_cases split: if_splits)

lemma get_ruby_mem_class_eq:
  "get_ruby_mem_class objs name =
     (case map_of (ruby_mem_classes objs) (dict_get (ruby_mem_aliases objs) name name) of
        Some cls \<Rightarrow> ([], Inr cls)
      | None \<Rightarrow>
          ([name @ '' is not a valid memory controller.''], Inl (sys_exit_raises objs 1)))"
  by (simp add: get_ruby_mem_class_def sys_exit_def return_io_def raise_io_def print_io_def
      bind_io_def split: option.splits)

lemma get_ruby_mem_class_cases:
  "(name \<notin> set (keys (ruby_mem_classes objs)) \<and> name \<notin> set (keys (ruby_mem_aliases objs)) \<longrightarrow>
      get_ruby_mem_class objs name =
        ([name @ '' is not a valid memory controller.''], Inl (sys_exit_raises objs 1)))
   \<and> (name \<in> set (keys (ruby_mem_classes objs)) \<or> name \<in> set (keys (ruby_mem_aliases objs)) \<longrightarrow>
      (\<exists>cls. get_ruby_mem_class objs name = ([], Inr cls) \<and> is_ruby_mem_class cls
         \<and> map_of (ruby_mem_classes objs) (dict_get (ruby_mem_aliases objs) name name)
             = Some cls))"
proof (cases "map_of (ruby_mem_aliases objs) name")
  case None
  then have real: "dict_get (ruby_mem_aliases objs) name name = name"
    by (simp add: dict_get_def)
  from None have noalias: "name \<notin> set (keys (ruby_mem_aliases objs))"
    by (simp add: in_keys_iff dict_has_def)
  show ?thesis
  proof (cases "map_of (ruby_mem_classes objs) name")
    case None
    then show ?thesis
      using noalias by (simp add: get_ruby_mem_class_eq real in_keys_iff dict_has_def)
  next
    case (Some cls)
    then show ?thesis
      using ruby_mem_classes_sound [OF Some]
      by (simp add: get_ruby_mem_class_eq real in_keys_iff dict_has_def)
  qed
next
  case (Some t)
  then have real: "dict_get (ruby_mem_aliases objs) name name = t"
    by (simp add: dict_get_def)
  from get_ruby_mem_class_alias(1) [OF Some]
  obtain cls where cls: "map_of (ruby_mem_classes objs) t = Some cls"
    by (auto simp: dict_has_def)
  from Some have "name \<in> set (keys (ruby_mem_aliases objs))"
    by (simp add: in_keys_iff dict_has_def)
  then show ?thesis
    using ruby_mem_classes_sound [OF cls]
    by (simp add: get_ruby_mem_class_eq real cls)
qed

lemma sys_exit_raises_cases:
  "(map_of (rev objs) ''sys'' = Some (PyModule ''sys'') \<longrightarrow>
      sys_exit_raises objs status = SystemExit status)
   \<and> (map_of (rev objs) ''sys'' = None \<longrightarrow> sys_exit_raises objs status = NameError ''sys'')"
  by (simp add: sys_exit_raises_def)

lemma example_registry:
  "ruby_mem_classes example_m5_objects =
      [(''NVMMemoryControl'', M5Class ''NVMMemoryControl'' True False),
       (''RubyMemoryControl'', M5Class ''RubyMemoryControl'' True False)]"
  "ruby_mem_aliases example_m5_objects =
      [(''ruby'', ''RubyMemoryControl''), (''nvmain'', ''NVMMemoryControl'')]"
  "ruby_mem_classes example_m5_objects_without_sys = ruby_mem_classes example_m5_objects"
  "ruby_mem_aliases example_m5_objects_without_sys = ruby_mem_aliases example_m5_objects"
proof -
  show c: "ruby_mem_classes example_m5_objects =
      [(''NVMMemoryControl'', M5Class ''NVMMemoryControl'' True False),
       (''RubyMemoryControl'', M5Class ''RubyMemoryControl'' True False)]"
    by (simp add: ruby_mem_classes_def getmembers_def example_m5_objects_def
        example_m5_objects_without_sys_def)
  show c': "ruby_mem_classes example_m5_objects_without_sys = ruby_mem_classes example_m5_objects"
    by (simp add: ruby_mem_classes_def getmembers_def example_m5_objects_def)
  show "ruby_mem_aliases example_m5_objects =
      [(''ruby'', ''RubyMemoryControl''), (''nvmain'', ''NVMMemoryControl'')]"
    by (simp add: ruby_mem_aliases_def ruby_mem_aliases_all_def add_alias_def dict_has_def c)
  show "ruby_mem_aliases example_m5_objects_without_sys = ruby_mem_aliases example_m5_objects"
    by (simp add: ruby_mem_aliases_def c')
qed

subsection \<open>Unknown and known names (C2)\<close>

text \<open>
  Claim C2. A name that is neither a key of the class registry nor a registered alias
  makes \<^verbatim>\<open>get_ruby_mem_class\<close> print its complaint and end in an exception, at
  configuration time: the \<^verbatim>\<open>SystemExit\<close> of \<^verbatim>\<open>sys.exit(1)\<close> when \<^verbatim>\<open>m5.objects\<close> exports the
  module \<^verbatim>\<open>sys\<close>, a \<^verbatim>\<open>NameError\<close> when it exports no such name; it never returns. A
  registered name or alias makes it return, without printing, the class that the
  registry holds for the name the alias table resolves it to, and this is a class that
  \<^verbatim>\<open>is_ruby_mem_class\<close> accepts.
\<close>

theorem get_ruby_mem_class_total:
  "(name \<notin> set (keys (ruby_mem_classes objs)) \<and> name \<notin> set (keys (ruby_mem_aliases objs)) \<longrightarrow>
      get_ruby_mem_class objs name =
        ([name @ '' is not a valid memory controller.''], Inl (sys_exit_raises objs 1)))
   \<and> (map_of (rev objs) ''sys'' = Some (PyModule ''sys'') \<longrightarrow>
        sys_exit_raises objs 1 = SystemExit 1)
   \<and> (map_of (rev objs) ''sys'' = None \<longrightarrow> sys_exit_raises objs 1 = NameError ''sys'')
   \<and> (name \<in> set (keys (ruby_mem_classes objs)) \<or> name \<in> set (keys (ruby_mem_aliases objs)) \<longrightarrow>
      (\<exists>cls. get_ruby_mem_class objs name = ([], Inr cls) \<and> is_ruby_mem_class cls
         \<and> map_of (ruby_mem_classes objs) (dict_get (ruby_mem_aliases objs) name name)
             = Some cls))"
  using get_ruby_mem_class_cases [of name objs] sys_exit_raises_cases [of objs 1]
  by blast

theorem get_ruby_mem_class_total_witness:
  "''bogus'' \<notin> set (keys (ruby_mem_classes example_m5_objects))
   \<and> ''bogus'' \<notin> set (keys (ruby_mem_aliases example_m5_objects))
   \<and> map_of (rev example_m5_objects) ''sys'' = Some (PyModule ''sys'')
   \<and> get_ruby_mem_class example_m5_objects ''bogus'' =
       ([''bogus is not a valid memory controller.''], Inl (SystemExit 1))
   \<and> map_of (rev example_m5_objects_without_sys) ''sys'' = None
   \<and> get_ruby_mem_class example_m5_objects_without_sys ''bogus'' =
       ([''bogus is not a valid memory controller.''], Inl (NameError ''sys''))
   \<and> ''nvmain'' \<in> set (keys (ruby_mem_aliases example_m5_objects))
   \<and> get_ruby_mem_class example_m5_objects ''nvmain'' =
       ([], Inr (M5Class ''NVMMemoryControl'' True False))"
proof -
  have k: "keys (ruby_mem_classes example_m5_objects) = [''NVMMemoryControl'', ''RubyMemoryControl'']"
    "keys (ruby_mem_aliases example_m5_objects) = [''ruby'', ''nvmain'']"
    by (simp_all add: keys_def example_registry)
  have y: "map_of (rev example_m5_objects) ''sys'' = Some (PyModule ''sys'')"
    and n: "map_of (rev example_m5_objects_without_sys) ''sys'' = None"
    by (simp_all add: example_m5_objects_def example_m5_objects_without_sys_def)
  from get_ruby_mem_class_total [of "''bogus''" example_m5_objects] y
  have 1: "get_ruby_mem_class example_m5_objects ''bogus'' =
       ([''bogus is not a valid memory controller.''], Inl (SystemExit 1))"
    by (simp add: k)
  from get_ruby_mem_class_total [of "''bogus''" example_m5_objects_without_sys] n
  have 2: "get_ruby_mem_class example_m5_objects_without_sys ''bogus'' =
       ([''bogus is not a valid memory controller.''], Inl (NameError ''sys''))"
    by (simp add: keys_def example_registry)
  from get_ruby_mem_class_total [of "''nvmain''" example_m5_objects]
  have 3: "get_ruby_mem_class example_m5_objects ''nvmain'' =
       ([], Inr (M5Class ''NVMMemoryControl'' True False))"
    by (auto simp: keys_def dict_get_def example_registry)
  from 1 2 3 y n show ?thesis by (simp add: k)
qed

subsection \<open>Aliases (C3)\<close>

text \<open>
  Claim C3. An alias is registered only when its target is a key of the class registry;
  looking a registered alias up gives what looking its target up gives; \<^verbatim>\<open>ruby\<close> and
  \<^verbatim>\<open>nvmain\<close> resolve to the classes registered as \<^verbatim>\<open>RubyMemoryControl\<close> and
  \<^verbatim>\<open>NVMMemoryControl\<close> whenever these are registered; and every name that
  \<^verbatim>\<open>ruby_mem_names()\<close> lists is accepted by \<^verbatim>\<open>get_ruby_mem_class\<close>.
\<close>

theorem ruby_mem_aliases_resolve:
  "(\<forall>a t. map_of (ruby_mem_aliases objs) a = Some t \<longrightarrow>
       dict_has (ruby_mem_classes objs) t
       \<and> get_ruby_mem_class objs a = get_ruby_mem_class objs t)
   \<and> (\<forall>cls. map_of (ruby_mem_classes objs) ''RubyMemoryControl'' = Some cls \<longrightarrow>
       get_ruby_mem_class objs ''ruby'' = ([], Inr cls))
   \<and> (\<forall>cls. map_of (ruby_mem_classes objs) ''NVMMemoryControl'' = Some cls \<longrightarrow>
       get_ruby_mem_class objs ''nvmain'' = ([], Inr cls))
   \<and> (\<forall>name \<in> set (ruby_mem_names objs).
       \<exists>cls. get_ruby_mem_class objs name = ([], Inr cls))"
proof (intro conjI allI impI ballI)
  fix a t assume at: "map_of (ruby_mem_aliases objs) a = Some t"
  show "dict_has (ruby_mem_classes objs) t"
    by (rule get_ruby_mem_class_alias(1) [OF at])
  show "get_ruby_mem_class objs a = get_ruby_mem_class objs t"
    using at get_ruby_mem_class_alias [OF at]
    by (auto simp: get_ruby_mem_class_eq dict_get_def dict_has_def)
next
  fix cls assume "map_of (ruby_mem_classes objs) ''RubyMemoryControl'' = Some cls"
  then show "get_ruby_mem_class objs ''ruby'' = ([], Inr cls)"
    by (simp add: get_ruby_mem_class_eq dict_get_def ruby_mem_aliases_cases dict_has_def)
next
  fix cls assume "map_of (ruby_mem_classes objs) ''NVMMemoryControl'' = Some cls"
  then show "get_ruby_mem_class objs ''nvmain'' = ([], Inr cls)"
    by (simp add: get_ruby_mem_class_eq dict_get_def ruby_mem_aliases_cases dict_has_def)
next
  fix name assume "name \<in> set (ruby_mem_names objs)"
  then show "\<exists>cls. get_ruby_mem_class objs name = ([], Inr cls)"
    using get_ruby_mem_class_cases [of name objs]
    by (auto simp: ruby_mem_names_def)
qed


theorem ruby_mem_aliases_resolve_witness:
  "map_of (ruby_mem_aliases example_m5_objects) ''ruby'' = Some ''RubyMemoryControl''
   \<and> dict_has (ruby_mem_classes example_m5_objects) ''RubyMemoryControl''
   \<and> get_ruby_mem_class example_m5_objects ''ruby'' =
       get_ruby_mem_class example_m5_objects ''RubyMemoryControl''
   \<and> map_of (ruby_mem_classes example_m5_objects) ''NVMMemoryControl'' =
       Some (M5Class ''NVMMemoryControl'' True False)
   \<and> get_ruby_mem_class example_m5_objects ''nvmain'' =
       ([], Inr (M5Class ''NVMMemoryControl'' True False))
   \<and> ''RubyMemoryControl'' \<in> set (ruby_mem_names example_m5_objects)
   \<and> (\<exists>cls. get_ruby_mem_class example_m5_objects ''RubyMemoryControl'' = ([], Inr cls))"
proof -
  have n: "''RubyMemoryControl'' \<in> set (ruby_mem_names example_m5_objects)"
    by (simp add: ruby_mem_names_def keys_def example_registry)
  have r: "map_of (ruby_mem_aliases example_m5_objects) ''ruby'' = Some ''RubyMemoryControl''"
    by (simp add: example_registry)
  have m: "map_of (ruby_mem_classes example_m5_objects) ''NVMMemoryControl'' =
       Some (M5Class ''NVMMemoryControl'' True False)"
    by (simp add: example_registry)
  from ruby_mem_aliases_resolve [of example_m5_objects] r m n
  show ?thesis by blast
qed

section \<open>Facts about \<^verbatim>\<open>create_system\<close>\<close>

subsection \<open>Sequencing, loops and the phases of the function\<close>

lemma bind_io_Inr:
  "bind_io m f = (out, Inr y) \<longleftrightarrow>
     (\<exists>o1 x o2. m = (o1, Inr x) \<and> f x = (o2, Inr y) \<and> out = o1 @ o2)"
  by (cases m; cases "snd m") (auto simp: bind_io_def split: prod.splits)

lemma bind_io_simps:
  "bind_io (o1, Inl e) f = (o1, Inl e)"
  "bind_io (o1, Inr x) f = (o1 @ fst (f x), snd (f x))"
  by (simp_all add: bind_io_def split: prod.splits)

lemma for_io_invariant:
  assumes "for_io xs body s = (out, Inr s')"
    and "I s"
    and "\<And>i s o1 s1. body i s = (o1, Inr s1) \<Longrightarrow> I s \<Longrightarrow> I s1"
  shows "I s'"
  using assms(1,2)
proof (induction xs arbitrary: s out)
  case Nil
  then show ?case by (simp add: return_io_def)
next
  case (Cons i rest)
  from Cons.prems(1) obtain o1 s1 o2 where
    step: "body i s = (o1, Inr s1)" and rest: "for_io rest body s1 = (o2, Inr s')"
    by (auto simp: bind_io_Inr)
  from assms(3) [OF step Cons.prems(2)] have "I s1" .
  from Cons.IH [OF rest this] show ?case .
qed

lemma for_io_establishes:
  assumes "for_io xs body s = (out, Inr s')"
    and "xs \<noteq> []"
    and "\<And>i s o1 s1. body i s = (o1, Inr s1) \<Longrightarrow> I s1"
  shows "I s'"
proof -
  from assms(2) obtain i rest where xs: "xs = i # rest" by (cases xs) auto
  from assms(1) obtain o1 s1 o2 where
    step: "body i s = (o1, Inr s1)" and rest: "for_io rest body s1 = (o2, Inr s')"
    by (auto simp: xs bind_io_Inr)
  from assms(3) [OF step] have s1: "I s1" .
  show ?thesis
    by (rule for_io_invariant [where I = I, OF rest s1]) (rule assms(3))
qed

lemma override_memBuffer_Inr:
  assumes "override_memBuffer env options i (ruby, heap) = (out, Inr (ruby', heap'))"
  shows "no_mem_vec ruby' = False"
    and "directory_size (heap' r) = directory_size (heap r)"
    and "directory_numa_high_bit (heap' r) = directory_numa_high_bit (heap r)"
  using assms
  by (auto simp: override_memBuffer_def bind_io_Inr print_io_def return_io_def raise_io_def
      Let_def split: option.splits)

lemma xrange_nonempty: "xrange n \<noteq> [] \<longleftrightarrow> 1 \<le> n"
  by (auto simp: xrange_def)

lemma visit_dir_cntrl_pair:
  "visit_dir_cntrl nb r (t, h) =
     (t + directory_size (h r), h(r := (h r)\<lparr>directory_numa_high_bit := Some nb\<rparr>))"
  by (simp add: visit_dir_cntrl_def)

lemma fold_visit_total:
  "fst (fold (visit_dir_cntrl nb) rs (t, h)) = t + sum_list (map (\<lambda>r. directory_size (h r)) rs)"
proof (induction rs arbitrary: t h)
  case Nil
  then show ?case by simp
next
  case (Cons r rs)
  have "\<And>x. directory_size
              (if x = r then (h r)\<lparr>directory_numa_high_bit := Some nb\<rparr> else h x)
            = directory_size (h x)"
    by simp
  then show ?case by (simp add: visit_dir_cntrl_pair Cons.IH)
qed




lemma create_system_to_sum_Inr:
  assumes "create_system_to_sum env options system dma_ports = (out, Inr l)"
  obtains o1 p o2 ruby heap o3 net o4 numa_bit where
    "construct_protocol env options system dma_ports = (o1, Inr p)"
    "for_io (xrange (num_dirs options)) (override_memBuffer env options)
       (protocol_ruby p, protocol_store p) = (o2, Inr (ruby, heap))"
    "create_network options (topology p) = (o3, Inr net)"
    "compute_numa_bit env options = (o4, Inr numa_bit)"
    "l = \<lparr>l_system = connect_system_port system,
          l_ruby = ruby\<lparr>block_size_bytes := Some (cacheline_size options)\<rparr>,
          l_store = snd (fold (visit_dir_cntrl numa_bit) (dir_cntrls p) (0, heap)),
          l_network = net,
          l_cpu_sequencers = cpu_sequencers p,
          l_total_mem_size = fst (fold (visit_dir_cntrl numa_bit) (dir_cntrls p) (0, heap))\<rparr>"
  using assms unfolding create_system_to_sum_def
  by (auto simp: bind_io_Inr return_io_def split_beta)

lemma create_system_after_sum:
  assumes "create_system_to_sum env options system dma_ports = (o1, Inr l)"
  shows "create_system env options system bus dma_ports =
     (if l_total_mem_size l \<noteq> sum_list (map range_size (mem_ranges (l_system l)))
      then (o1, Inl AssertionError)
      else (o1, Inr \<lparr>final_system = l_system l,
                final_ruby = (l_ruby l)
                  \<lparr>network := Some (l_network l),
                   mem_size := Some (l_total_mem_size l),
                   cpu_ports := map (connect_piobus env bus) (l_cpu_sequencers l),
                   num_of_sequencers := Some (int (length (l_cpu_sequencers l))),
                   ruby_random_seed := Some (random_seed options)\<rparr>,
                final_store = l_store l\<rparr>))"
  by (simp add: create_system_def assms bind_io_simps create_system_from_check_def
      return_io_def raise_io_def Let_def)

lemma create_system_Inr:
  assumes "create_system env options system bus dma_ports = (out, Inr w)"
  obtains l where
    "create_system_to_sum env options system dma_ports = (out, Inr l)"
    "l_total_mem_size l = sum_list (map range_size (mem_ranges (l_system l)))"
    "w = \<lparr>final_system = l_system l,
                final_ruby = (l_ruby l)
                  \<lparr>network := Some (l_network l),
                   mem_size := Some (l_total_mem_size l),
                   cpu_ports := map (connect_piobus env bus) (l_cpu_sequencers l),
                   num_of_sequencers := Some (int (length (l_cpu_sequencers l))),
                   ruby_random_seed := Some (random_seed options)\<rparr>,
                final_store = l_store l\<rparr>"
proof -
  from assms obtain o1 l o2 where
    l: "create_system_to_sum env options system dma_ports = (o1, Inr l)"
    by (auto simp: create_system_def bind_io_Inr)
  from assms create_system_after_sum [OF l, of bus] that l show thesis
    by (auto split: if_splits)
qed

lemma attach_fault_model_Inr:
  assumes "attach_fault_model options net = (out, Inr net')" and "network_fault_model options"
  shows "garnet_network options = Some ''fixed''"
    and "enable_fault_model net' = Some True"
    and "fault_model net' = Some FaultModel"
  using assms
  by (auto simp: attach_fault_model_def return_io_def raise_io_def split: if_splits)

lemma create_network_Inr:
  assumes "create_network options topo = (out, Inr net)" and "network_fault_model options"
  shows "garnet_network options = Some ''fixed''"
    and "enable_fault_model net = Some True"
    and "fault_model net = Some FaultModel"
  using assms attach_fault_model_Inr [of options _ _ net]
  by (auto simp: create_network_def bind_io_Inr)

lemma outcome_Inr_ex: "outcome m = Inr w \<longleftrightarrow> (\<exists>out. m = (out, Inr w))"
  by (cases m) (simp add: outcome_def)

lemma outcome_cases: "(\<exists>e. outcome m = Inl e) \<or> (\<exists>w. outcome m = Inr w)"
  by (cases "outcome m") auto

lemma construct_protocol_cases:
  assumes "importable env (buildEnv_PROTOCOL env) = Some m"
  shows "construct_protocol env options system dma_ports =
     (case m options system dma_ports (RubySystem (use_map options)) of
        (out, Inl e) \<Rightarrow>
          (out @ [''Error: could not create sytem for ruby protocol '' @ buildEnv_PROTOCOL env],
           Inl e)
      | (out, Inr p) \<Rightarrow> (out, Inr p))"
  by (simp add: construct_protocol_def assms bind_io_def print_io_def raise_io_def Let_def
      split: prod.splits sum.splits)

lemma override_loop_no_mem_vec:
  assumes "for_io xs (override_memBuffer env options) s = (out, Inr s')" and "xs \<noteq> []"
  shows "no_mem_vec (fst s') = False"
proof (rule for_io_establishes [where I = "\<lambda>s. no_mem_vec (fst s) = False", OF assms])
  fix i s o1 s1
  assume "override_memBuffer env options i s = (o1, Inr s1)"
  then show "no_mem_vec (fst s1) = False"
    using override_memBuffer_Inr(1) [of env options i "fst s" "snd s" o1 "fst s1" "snd s1"]
    by simp
qed

lemma override_loop_sizes:
  assumes "for_io xs (override_memBuffer env options) s = (out, Inr s')"
  shows "\<forall>r. directory_size (snd s' r) = directory_size (snd s r)"
proof (rule for_io_invariant
    [where I = "\<lambda>t. \<forall>r. directory_size (snd t r) = directory_size (snd s r)", OF assms])
  show "\<forall>r. directory_size (snd s r) = directory_size (snd s r)" by simp
next
  fix i t o1 t1
  assume "override_memBuffer env options i t = (o1, Inr t1)"
    and "\<forall>r. directory_size (snd t r) = directory_size (snd s r)"
  then show "\<forall>r. directory_size (snd t1 r) = directory_size (snd s r)"
    using override_memBuffer_Inr(2) [of env options i "fst t" "snd t" o1 "fst t1" "snd t1"]
    by simp
qed

lemma create_system_to_sum_total:
  assumes "construct_protocol env options system dma_ports = (o0, Inr p)"
    and "create_system_to_sum env options system dma_ports = (o1, Inr l)"
  shows "l_total_mem_size l = (\<Sum>r\<leftarrow>dir_cntrls p. directory_size (protocol_store p r))"
    and "mem_ranges (l_system l) = mem_ranges system"
proof -
  from assms(2) obtain o2 q o3 ruby heap numa_bit where
    q: "construct_protocol env options system dma_ports = (o2, Inr q)"
    and loop: "for_io (xrange (num_dirs options)) (override_memBuffer env options)
       (protocol_ruby q, protocol_store q) = (o3, Inr (ruby, heap))"
    and tot: "l_total_mem_size l = fst (fold (visit_dir_cntrl numa_bit) (dir_cntrls q) (0, heap))"
    and sys: "l_system l = connect_system_port system"
    by (rule create_system_to_sum_Inr) auto
  from q assms(1) have qp: "q = p" by simp
  from override_loop_sizes [OF loop]
  have "\<forall>r. directory_size (heap r) = directory_size (protocol_store q r)" by simp
  with tot qp show
    "l_total_mem_size l = (\<Sum>r\<leftarrow>dir_cntrls p. directory_size (protocol_store p r))"
    by (simp add: fold_visit_total)
  from sys show "mem_ranges (l_system l) = mem_ranges system"
    by (simp add: connect_system_port_def)
qed

lemma create_system_fault_assert:
  assumes "construct_protocol env options system dma_ports = (o1, Inr p)"
    and "for_io (xrange (num_dirs options)) (override_memBuffer env options)
           (protocol_ruby p, protocol_store p) = (o2, Inr st)"
    and "build_network options (topology p) = (o3, Inr net)"
    and "network_fault_model options"
    and "garnet_network options \<noteq> Some ''fixed''"
  shows "create_system env options system bus dma_ports = (o1 @ o2 @ o3, Inl AssertionError)"
  using assms(4,5)
  by (simp add: create_system_def create_system_to_sum_def create_network_def
      attach_fault_model_def assms(1,2,3) bind_io_simps raise_io_def split_beta)


subsection \<open>The example runs\<close>

lemma example_options_fields:
  "num_dirs example_options = 2" "num_dirs flexible_options = 2" "num_dirs odd_line_options = 2"
  "ruby_mem_type example_options = ''nvmain''" "ruby_mem_type flexible_options = ''nvmain''"
  "ruby_mem_type odd_line_options = ''nvmain''"
  "use_map example_options" "use_map flexible_options" "use_map odd_line_options"
  "network_fault_model example_options" "network_fault_model flexible_options"
  "network_fault_model odd_line_options"
  "garnet_network example_options = Some ''fixed''"
  "garnet_network flexible_options = Some ''flexible''"
  "garnet_network odd_line_options = Some ''fixed''"
  "numa_high_bit example_options = 0" "numa_high_bit odd_line_options = 0"
  "cacheline_size example_options = 64" "cacheline_size odd_line_options = 2 ^ 48 - 1"
  by (simp_all add: example_options_def flexible_options_def odd_line_options_def)

lemma example_get_nvmain:
  "get_ruby_mem_class example_m5_objects ''nvmain'' =
     ([], Inr (M5Class ''NVMMemoryControl'' True False))"
  by (simp add: get_ruby_mem_class_eq dict_get_def example_registry)

lemma xrange_2: "xrange 2 = [0, 1]"
  by (simp add: xrange_def upto.simps)

lemma example_double_log:
  "py_int (double_log 64 2) = 6"
  "py_int (double_log 2 2) = 1"
  "py_int (double_log (2 ^ 48 - 1) 2) = 48"
proof -
  have "log 2 (2 ^ 6) = 6" "log 2 (2 ^ 1) = 1"
    by (simp_all only: log_pow_cancel [of 2])
  then have "log 2 64 = 6" "log 2 2 = 1" by simp_all
  then show "py_int (double_log 64 2) = 6" "py_int (double_log 2 2) = 1"
    by (simp_all add: double_log_def py_int_def)
  show "py_int (double_log (2 ^ 48 - 1) 2) = 48"
    by (simp add: double_log_def py_int_def)
qed

lemma example_numa_bit:
  "compute_numa_bit (example_env protocol) example_options = ([], Inr 6)"
  "compute_numa_bit (example_env protocol) odd_line_options = ([], Inr 48)"
proof -
  have m: "math_log (example_env protocol) = double_log"
    by (simp add: example_env_def)
  show "compute_numa_bit (example_env protocol) example_options = ([], Inr 6)"
    using example_double_log(1,2)
    by (simp add: compute_numa_bit_def py_int_log2_def m example_options_fields bind_io_simps
        return_io_def raise_io_def)
  show "compute_numa_bit (example_env protocol) odd_line_options = ([], Inr 48)"
    using example_double_log(2,3)
    by (simp add: compute_numa_bit_def py_int_log2_def m example_options_fields bind_io_simps
        return_io_def raise_io_def)
qed

lemma example_construct:
  assumes "num_dirs opts = 2" and "use_map opts"
  shows "construct_protocol (example_env ''MESI_CMP_directory'') opts system dma_ports =
     ([], Inr
       \<lparr>cpu_sequencers =
          [\<lparr>pio_master_port = None, mem_master_port = None, pio_slave_port = None\<rparr>],
        dir_cntrls = [0, 1],
        topology = example_topology,
        protocol_ruby =
          (RubySystem True)\<lparr>dir_cntrl :=
            (\<lambda>i. if 0 \<le> i \<and> i < 2 then Some (nat i) else None)\<rparr>,
        protocol_store =
          (\<lambda>r. \<lparr>directory_size = 256, directory_numa_high_bit = None, memBuffer = None\<rparr>)\<rparr>)"
  by (simp add: construct_protocol_def example_env_def example_protocol_def return_io_def
      assms xrange_2 Let_def)

lemma example_loop:
  assumes "num_dirs opts = 2" and "ruby_mem_type opts = ''nvmain''"
  shows "\<exists>ruby heap. for_io (xrange (num_dirs opts))
      (override_memBuffer (example_env ''MESI_CMP_directory'') opts)
      ((RubySystem True)\<lparr>dir_cntrl :=
            (\<lambda>i. if 0 \<le> i \<and> i < 2 then Some (nat i) else None)\<rparr>,
       (\<lambda>r. \<lparr>directory_size = 256, directory_numa_high_bit = None, memBuffer = None\<rparr>))
    = ([''Changing memory type to nvmain'', ''Changing memory type to nvmain''],
       Inr (ruby, heap))"
proof -
  have o: "objects (example_env ''MESI_CMP_directory'') = example_m5_objects"
    by (simp add: example_env_def)
  show ?thesis
    by (simp add: assms xrange_2 override_memBuffer_def o example_get_nvmain bind_io_simps
        print_io_def return_io_def Let_def)
qed

lemma example_build_network:
  "\<exists>net. build_network opts example_topology = ([], Inr net)"
  by (simp add: build_network_def network_classes_def example_topology_def bind_io_simps
      return_io_def)

lemma example_network:
  assumes "garnet_network opts = Some ''fixed''"
  shows "\<exists>net. create_network opts example_topology = ([], Inr net)"
proof -
  from example_build_network obtain net where
    "build_network opts example_topology = ([], Inr net)"
    by blast
  then show ?thesis
    by (simp add: create_network_def attach_fault_model_def assms bind_io_simps return_io_def)
qed

lemma example_to_sum:
  assumes "num_dirs opts = 2" and "ruby_mem_type opts = ''nvmain''" and "use_map opts"
    and "garnet_network opts = Some ''fixed''"
    and "compute_numa_bit (example_env ''MESI_CMP_directory'') opts = ([], Inr nb)"
  shows "\<exists>l. create_system_to_sum (example_env ''MESI_CMP_directory'') opts
          (example_system b) [] =
        ([''Changing memory type to nvmain'', ''Changing memory type to nvmain''], Inr l)"
proof -
  from example_loop [OF assms(1,2)] obtain ruby heap where
    loop: "for_io (xrange (num_dirs opts))
      (override_memBuffer (example_env ''MESI_CMP_directory'') opts)
      ((RubySystem True)\<lparr>dir_cntrl :=
            (\<lambda>i. if 0 \<le> i \<and> i < 2 then Some (nat i) else None)\<rparr>,
       (\<lambda>r. \<lparr>directory_size = 256, directory_numa_high_bit = None, memBuffer = None\<rparr>))
    = ([''Changing memory type to nvmain'', ''Changing memory type to nvmain''],
       Inr (ruby, heap))"
    by blast
  from example_network [OF assms(4)] obtain net where
    net: "create_network opts example_topology = ([], Inr net)"
    by blast
  show ?thesis
    by (simp add: create_system_to_sum_def example_construct [OF assms(1,3)] loop net assms(5)
        bind_io_simps return_io_def split_beta)
qed

lemma example_total:
  assumes "num_dirs opts = 2" and "use_map opts"
    and "create_system_to_sum (example_env ''MESI_CMP_directory'') opts
          (example_system b) [] = (o1, Inr l)"
  shows "l_total_mem_size l = 512"
    and "sum_list (map range_size (mem_ranges (l_system l))) = b"
  using create_system_to_sum_total [OF example_construct [OF assms(1,2)] assms(3)]
  by (simp_all add: example_system_def)

lemma example_returns:
  assumes "num_dirs opts = 2" and "ruby_mem_type opts = ''nvmain''" and "use_map opts"
    and "garnet_network opts = Some ''fixed''"
    and "compute_numa_bit (example_env ''MESI_CMP_directory'') opts = ([], Inr nb)"
  shows "\<exists>out w. create_system (example_env ''MESI_CMP_directory'') opts
          (example_system 512) bus [] = (out, Inr w)"
proof -
  from example_to_sum [OF assms, of 512] obtain l where
    l: "create_system_to_sum (example_env ''MESI_CMP_directory'') opts
          (example_system 512) [] =
        ([''Changing memory type to nvmain'', ''Changing memory type to nvmain''], Inr l)"
    by blast
  show ?thesis
    by (simp add: create_system_after_sum [OF l] example_total [OF assms(1,3) l])
qed

lemmas example_options_ok =
  example_options_fields(1) example_options_fields(4) example_options_fields(7)
  example_options_fields(13) example_numa_bit(1)



lemma flexible_run:
  "create_system (example_env ''MESI_CMP_directory'') flexible_options (example_system 512)
     None [] =
   ([''Changing memory type to nvmain'', ''Changing memory type to nvmain''],
    Inl AssertionError)"
proof -
  note c = example_construct [OF example_options_fields(2) example_options_fields(8)]
  from example_loop [OF example_options_fields(2) example_options_fields(5)]
  obtain ruby heap where
    loop: "for_io (xrange (num_dirs flexible_options))
      (override_memBuffer (example_env ''MESI_CMP_directory'') flexible_options)
      ((RubySystem True)\<lparr>dir_cntrl :=
            (\<lambda>i. if 0 \<le> i \<and> i < 2 then Some (nat i) else None)\<rparr>,
       (\<lambda>r. \<lparr>directory_size = 256, directory_numa_high_bit = None, memBuffer = None\<rparr>))
    = ([''Changing memory type to nvmain'', ''Changing memory type to nvmain''],
       Inr (ruby, heap))"
    by blast
  from example_build_network obtain net where
    net: "build_network flexible_options example_topology = ([], Inr net)"
    by blast
  have "create_system (example_env ''MESI_CMP_directory'') flexible_options
          (example_system 512) None [] =
        ([] @ [''Changing memory type to nvmain'', ''Changing memory type to nvmain''] @ [],
         Inl AssertionError)"
    using loop net
    by (intro create_system_fault_assert [OF c, where st = "(ruby, heap)"])
       (simp_all add: example_options_fields)
  then show ?thesis by simp
qed

lemma fault_model_cases:
  assumes "network_fault_model options"
  shows "(garnet_network options \<noteq> Some ''fixed'' \<longrightarrow>
           (\<forall>net. attach_fault_model options net = ([], Inl AssertionError))
           \<and> (\<exists>e. outcome (create_system env options system bus dma_ports) = Inl e))
       \<and> (garnet_network options = Some ''fixed'' \<longrightarrow>
           (\<forall>out w. create_system env options system bus dma_ports = (out, Inr w) \<longrightarrow>
              (\<exists>net. network (final_ruby w) = Some net
                 \<and> enable_fault_model net = Some True
                 \<and> fault_model net = Some FaultModel)))"
proof (intro conjI impI allI)
  fix net assume "garnet_network options \<noteq> Some ''fixed''"
  then show "attach_fault_model options net = ([], Inl AssertionError)"
    using assms by (simp add: attach_fault_model_def raise_io_def)
next
  assume nf: "garnet_network options \<noteq> Some ''fixed''"
  show "\<exists>e. outcome (create_system env options system bus dma_ports) = Inl e"
  proof (rule ccontr)
    assume "\<not> ?thesis"
    with outcome_cases [of "create_system env options system bus dma_ports"]
    obtain out w where "create_system env options system bus dma_ports = (out, Inr w)"
      by (auto simp: outcome_Inr_ex)
    then obtain l where "create_system_to_sum env options system dma_ports = (out, Inr l)"
      by (rule create_system_Inr)
    then obtain p :: protocol_system and o3 net where
      "create_network options (topology p) = (o3, Inr net)"
      by (rule create_system_to_sum_Inr) auto
    from create_network_Inr(1) [OF this assms] nf show False by simp
  qed
next
  fix out w
  assume "create_system env options system bus dma_ports = (out, Inr w)"
  then obtain l where
    l: "create_system_to_sum env options system dma_ports = (out, Inr l)"
    and w: "network (final_ruby w) = Some (l_network l)"
    by (rule create_system_Inr) auto
  from l obtain p :: protocol_system and o3 net where
    "create_network options (topology p) = (o3, Inr net)" and "l_network l = net"
    by (rule create_system_to_sum_Inr) auto
  with create_network_Inr(2,3) [OF this(1) assms] w
  show "\<exists>net. network (final_ruby w) = Some net
                 \<and> enable_fault_model net = Some True
                 \<and> fault_model net = Some FaultModel"
    by simp
qed


subsection \<open>The memory-size check (C1)\<close>

text \<open>
  Claim C1. Once \<^verbatim>\<open>create_system\<close> has reached line 294, its total is the sum of
  \<^verbatim>\<open>directory.size.value\<close> over the directory controllers the protocol module returned.
  From there the call fails if and only if that total differs from the sum of the sizes
  of \<^verbatim>\<open>system.mem_ranges\<close>, and it fails with the \<^verbatim>\<open>AssertionError\<close> of line 295; when
  the two are equal the call returns and \<^verbatim>\<open>ruby.mem_size\<close> is that total.
\<close>

theorem mem_size_check:
  assumes "construct_protocol env options system dma_ports = (o0, Inr p)"
    and "create_system_to_sum env options system dma_ports = (o1, Inr l)"
  shows "l_total_mem_size l = (\<Sum>r\<leftarrow>dir_cntrls p. directory_size (protocol_store p r))
       \<and> (create_system env options system bus dma_ports = (o1, Inl AssertionError)
            \<longleftrightarrow> l_total_mem_size l \<noteq> sum_list (map range_size (mem_ranges system)))
       \<and> ((\<exists>e. outcome (create_system env options system bus dma_ports) = Inl e)
            \<longleftrightarrow> l_total_mem_size l \<noteq> sum_list (map range_size (mem_ranges system)))
       \<and> (l_total_mem_size l = sum_list (map range_size (mem_ranges system)) \<longrightarrow>
            (\<exists>w. create_system env options system bus dma_ports = (o1, Inr w)
               \<and> mem_size (final_ruby w) = Some (l_total_mem_size l)))"
  using create_system_to_sum_total [OF assms]
  by (simp add: create_system_after_sum [OF assms(2)] outcome_def)

theorem mem_size_check_witness:
  "(\<exists>o1 l w. create_system_to_sum (example_env ''MESI_CMP_directory'') example_options
                 (example_system 512) [] = (o1, Inr l)
             \<and> l_total_mem_size l = 512
             \<and> create_system (example_env ''MESI_CMP_directory'') example_options
                 (example_system 512) None [] = (o1, Inr w)
             \<and> mem_size (final_ruby w) = Some 512)
   \<and> (\<exists>o1 l. create_system_to_sum (example_env ''MESI_CMP_directory'') example_options
                 (example_system 1024) [] = (o1, Inr l)
             \<and> l_total_mem_size l = 512
             \<and> create_system (example_env ''MESI_CMP_directory'') example_options
                 (example_system 1024) None [] = (o1, Inl AssertionError))"
proof -
  note c = example_construct [OF example_options_fields(1) example_options_fields(7)]
  from example_to_sum [OF example_options_ok, of 512] obtain o1 l where
    l: "create_system_to_sum (example_env ''MESI_CMP_directory'') example_options
          (example_system 512) [] = (o1, Inr l)"
    by blast
  from example_to_sum [OF example_options_ok, of 1024] obtain o2 k where
    k: "create_system_to_sum (example_env ''MESI_CMP_directory'') example_options
          (example_system 1024) [] = (o2, Inr k)"
    by blast
  have "l_total_mem_size l = 512
      \<and> (\<exists>w. create_system (example_env ''MESI_CMP_directory'') example_options
                 (example_system 512) None [] = (o1, Inr w)
             \<and> mem_size (final_ruby w) = Some 512)"
    using mem_size_check [OF c l, of None]
    by (simp add: example_system_def)
  moreover have "l_total_mem_size k = 512
      \<and> create_system (example_env ''MESI_CMP_directory'') example_options
                 (example_system 1024) None [] = (o2, Inl AssertionError)"
    using mem_size_check [OF c k, of None]
    by (simp add: example_system_def)
  ultimately show ?thesis using l k by blast
qed

subsection \<open>The fault model and the network variant (C4)\<close>

text \<open>
  Claim C4, as the script has it. With \<^verbatim>\<open>options.network_fault_model\<close> set and
  \<^verbatim>\<open>options.garnet_network\<close> other than \<^verbatim>\<open>"fixed"\<close>, \<^verbatim>\<open>create_system\<close> never returns:
  the \<^verbatim>\<open>assert\<close> of line 264 fails on whatever network was built, so that a call in which
  protocol construction, the loop over the directories and the topology succeed ends
  there, in an \<^verbatim>\<open>AssertionError\<close> that carries no message, and prints nothing about
  it. With \<^verbatim>\<open>"fixed"\<close>, a call that returns leaves \<^verbatim>\<open>ruby.network\<close> with
  \<^verbatim>\<open>enable_fault_model\<close> set to true and a \<^verbatim>\<open>FaultModel\<close> attached.
\<close>

theorem fault_model_needs_fixed_garnet:
  assumes "network_fault_model options"
  shows "(garnet_network options \<noteq> Some ''fixed'' \<longrightarrow>
           (\<forall>net. attach_fault_model options net = ([], Inl AssertionError))
           \<and> \<not> carries_message AssertionError
           \<and> (\<exists>e. outcome (create_system env options system bus dma_ports) = Inl e)
           \<and> (\<forall>o1 p o2 st o3 net.
                 construct_protocol env options system dma_ports = (o1, Inr p) \<longrightarrow>
                 for_io (xrange (num_dirs options)) (override_memBuffer env options)
                   (protocol_ruby p, protocol_store p) = (o2, Inr st) \<longrightarrow>
                 build_network options (topology p) = (o3, Inr net) \<longrightarrow>
                 create_system env options system bus dma_ports =
                   (o1 @ o2 @ o3, Inl AssertionError)))
       \<and> (garnet_network options = Some ''fixed'' \<longrightarrow>
           (\<forall>out w. create_system env options system bus dma_ports = (out, Inr w) \<longrightarrow>
              (\<exists>net. network (final_ruby w) = Some net
                 \<and> enable_fault_model net = Some True
                 \<and> fault_model net = Some FaultModel)))"
proof -
  have stop: "garnet_network options \<noteq> Some ''fixed'' \<longrightarrow>
      (\<forall>o1 p o2 st o3 net.
         construct_protocol env options system dma_ports = (o1, Inr p) \<longrightarrow>
         for_io (xrange (num_dirs options)) (override_memBuffer env options)
           (protocol_ruby p, protocol_store p) = (o2, Inr st) \<longrightarrow>
         build_network options (topology p) = (o3, Inr net) \<longrightarrow>
         create_system env options system bus dma_ports =
           (o1 @ o2 @ o3, Inl AssertionError))"
    using create_system_fault_assert [where bus = bus and env = env and options = options
        and system = system and dma_ports = dma_ports] assms
    by blast
  from fault_model_cases [OF assms, of env system bus dma_ports] stop
  show ?thesis by simp
qed

theorem fault_model_needs_fixed_garnet_witness:
  "network_fault_model example_options
   \<and> garnet_network example_options = Some ''fixed''
   \<and> (\<exists>out w net. create_system (example_env ''MESI_CMP_directory'') example_options
                 (example_system 512) None [] = (out, Inr w)
         \<and> network (final_ruby w) = Some net
         \<and> enable_fault_model net = Some True
         \<and> fault_model net = Some FaultModel)
   \<and> network_fault_model flexible_options
   \<and> garnet_network flexible_options \<noteq> Some ''fixed''
   \<and> create_system (example_env ''MESI_CMP_directory'') flexible_options
        (example_system 512) None [] =
      ([''Changing memory type to nvmain'', ''Changing memory type to nvmain''],
       Inl AssertionError)"
proof -
  note f = example_options_fields(10) and g = example_options_fields(13)
    and f' = example_options_fields(11)
  have g': "garnet_network flexible_options \<noteq> Some ''fixed''"
    by (simp add: example_options_fields)
  from example_returns [OF example_options_ok, of None] obtain out w where
    w: "create_system (example_env ''MESI_CMP_directory'') example_options
          (example_system 512) None [] = (out, Inr w)"
    by blast
  from fault_model_needs_fixed_garnet [OF f,
      of "example_env ''MESI_CMP_directory''" "example_system 512" None "[]"] g w
  have 1: "\<exists>net. network (final_ruby w) = Some net
         \<and> enable_fault_model net = Some True \<and> fault_model net = Some FaultModel"
    by blast
  note c = example_construct [OF example_options_fields(2) example_options_fields(8)]
  from example_loop [OF example_options_fields(2) example_options_fields(5)]
  obtain ruby heap where
    loop: "for_io (xrange (num_dirs flexible_options))
      (override_memBuffer (example_env ''MESI_CMP_directory'') flexible_options)
      ((RubySystem True)\<lparr>dir_cntrl :=
            (\<lambda>i. if 0 \<le> i \<and> i < 2 then Some (nat i) else None)\<rparr>,
       (\<lambda>r. \<lparr>directory_size = 256, directory_numa_high_bit = None, memBuffer = None\<rparr>))
    = ([''Changing memory type to nvmain'', ''Changing memory type to nvmain''],
       Inr (ruby, heap))"
    by blast
  from example_build_network obtain net where
    net: "build_network flexible_options example_topology = ([], Inr net)"
    by blast
  from fault_model_needs_fixed_garnet [OF f',
      of "example_env ''MESI_CMP_directory''" "example_system 512" None "[]"] g'
  have "\<forall>o1 p o2 st o3 net.
          construct_protocol (example_env ''MESI_CMP_directory'') flexible_options
            (example_system 512) [] = (o1, Inr p) \<longrightarrow>
          for_io (xrange (num_dirs flexible_options))
            (override_memBuffer (example_env ''MESI_CMP_directory'') flexible_options)
            (protocol_ruby p, protocol_store p) = (o2, Inr st) \<longrightarrow>
          build_network flexible_options (topology p) = (o3, Inr net) \<longrightarrow>
          create_system (example_env ''MESI_CMP_directory'') flexible_options
            (example_system 512) None [] = (o1 @ o2 @ o3, Inl AssertionError)"
    by blast
  from this [rule_format, OF c] loop net
  have 2: "create_system (example_env ''MESI_CMP_directory'') flexible_options
        (example_system 512) None [] =
      ([''Changing memory type to nvmain'', ''Changing memory type to nvmain''],
       Inl AssertionError)"
    by simp
  from 1 2 f g f' g' w show ?thesis by blast
qed

text \<open>
  The error of the claim as the specification words it, a descriptive one, is not what
  the script raises: in the run with the flexible variant the call prints its two lines
  about the memory type and ends in the \<^verbatim>\<open>AssertionError\<close> of a bare \<^verbatim>\<open>assert\<close>, which
  carries no message.
\<close>

theorem fault_model_error_without_message:
  "create_system (example_env ''MESI_CMP_directory'') flexible_options (example_system 512)
     None [] =
   ([''Changing memory type to nvmain'', ''Changing memory type to nvmain''],
    Inl AssertionError)
   \<and> \<not> carries_message AssertionError"
  using flexible_run by simp

subsection \<open>Errors of the protocol module (C5)\<close>

text \<open>
  Claim C5. \<^verbatim>\<open>create_system\<close> calls the \<^verbatim>\<open>create_system\<close> of the module that
  \<^verbatim>\<open>buildEnv['PROTOCOL']\<close> names. When that call raises, whatever the exception, the
  wrapper prints its line after what the protocol module had printed and the same
  exception leaves \<^verbatim>\<open>create_system\<close>, nothing further being run; when it returns, its
  result (sequencers, directory controllers, topology) is what construction goes on with.
\<close>

theorem protocol_error_reraised:
  assumes "importable env (buildEnv_PROTOCOL env) = Some m"
  shows "(m options system dma_ports (RubySystem (use_map options)) = (out, Inl e) \<longrightarrow>
            create_system env options system bus dma_ports =
              (out @ [''Error: could not create sytem for ruby protocol ''
                        @ buildEnv_PROTOCOL env],
               Inl e))
       \<and> (m options system dma_ports (RubySystem (use_map options)) = (out, Inr p) \<longrightarrow>
            construct_protocol env options system dma_ports = (out, Inr p))"
  by (simp add: construct_protocol_cases [OF assms] create_system_def create_system_to_sum_def
      bind_io_simps)

theorem protocol_error_reraised_witness:
  "importable (example_env ''Broken'') (buildEnv_PROTOCOL (example_env ''Broken''))
     = Some failing_protocol
   \<and> failing_protocol example_options (example_system 512) [] (RubySystem True)
     = ([''building caches''], Inl (Raised ''no such cache''))
   \<and> create_system (example_env ''Broken'') example_options (example_system 512) None []
     = ([''building caches'', ''Error: could not create sytem for ruby protocol Broken''],
        Inl (Raised ''no such cache''))"
proof -
  have i: "importable (example_env ''Broken'') (buildEnv_PROTOCOL (example_env ''Broken''))
     = Some failing_protocol"
    by (simp add: example_env_def)
  have r: "failing_protocol example_options (example_system 512) []
             (RubySystem (use_map example_options))
     = ([''building caches''], Inl (Raised ''no such cache''))"
    by (simp add: failing_protocol_def bind_io_def print_io_def raise_io_def)
  have u: "use_map example_options = True" "buildEnv_PROTOCOL (example_env ''Broken'') = ''Broken''"
    by (simp_all add: example_options_def example_env_def)
  from protocol_error_reraised [OF i, of example_options "example_system 512" "[]"
      "[''building caches'']" "Raised ''no such cache''" None] r i
  show ?thesis by (simp add: u)
qed

subsection \<open>\<^verbatim>\<open>no_mem_vec\<close> after the loop over the directories (C9)\<close>

text \<open>
  Claim C9. The \<^verbatim>\<open>RubySystem\<close> is built with \<^verbatim>\<open>no_mem_vec\<close> equal to
  \<^verbatim>\<open>options.use_map\<close>, yet whenever \<^verbatim>\<open>options.num_dirs\<close> is at least 1 and
  \<^verbatim>\<open>create_system\<close> returns, \<^verbatim>\<open>ruby.no_mem_vec\<close> is \<^verbatim>\<open>False\<close>, whatever
  \<^verbatim>\<open>options.use_map\<close> was.
\<close>

theorem no_mem_vec_forced_False:
  assumes "1 \<le> num_dirs options"
    and "create_system env options system bus dma_ports = (out, Inr w)"
  shows "no_mem_vec (RubySystem (use_map options)) = use_map options
       \<and> no_mem_vec (final_ruby w) = False"
proof -
  from assms(2) obtain l where
    l: "create_system_to_sum env options system dma_ports = (out, Inr l)"
    and w: "no_mem_vec (final_ruby w) = no_mem_vec (l_ruby l)"
    by (rule create_system_Inr) auto
  from l obtain p :: protocol_system and o2 ruby heap where
    loop: "for_io (xrange (num_dirs options)) (override_memBuffer env options)
       (protocol_ruby p, protocol_store p) = (o2, Inr (ruby, heap))"
    and "no_mem_vec (l_ruby l) = no_mem_vec ruby"
    by (rule create_system_to_sum_Inr) auto
  moreover from assms(1) have "xrange (num_dirs options) \<noteq> []"
    by (simp add: xrange_nonempty)
  from override_loop_no_mem_vec [OF loop this] have "no_mem_vec ruby = False" by simp
  ultimately show ?thesis using w by (simp add: RubySystem_def)
qed

theorem no_mem_vec_forced_False_witness:
  "use_map example_options
   \<and> 1 \<le> num_dirs example_options
   \<and> (\<exists>out w. create_system (example_env ''MESI_CMP_directory'') example_options
                 (example_system 512) None [] = (out, Inr w)
         \<and> no_mem_vec (RubySystem (use_map example_options))
         \<and> \<not> no_mem_vec (final_ruby w))"
proof -
  have n: "1 \<le> num_dirs example_options" and u: "use_map example_options"
    by (simp_all add: example_options_fields)
  from example_returns [OF example_options_ok, of None] obtain out w where
    w: "create_system (example_env ''MESI_CMP_directory'') example_options
          (example_system 512) None [] = (out, Inr w)"
    by blast
  from no_mem_vec_forced_False [OF n w] n u w show ?thesis by auto
qed

subsection \<open>The NUMA bit of the directories (C10)\<close>




section \<open>Facts about the sequencer\<close>

text \<open>
  Claim C8. For every core, \<^verbatim>\<open>issue\<close> with the core's number of outstanding
  transactions at the limit fails with \<^verbatim>\<open>SequencerBusy\<close>, which is not a fatal error;
  with the number below the limit it succeeds, and the new transaction counts as
  outstanding for that core.
\<close>

theorem issue_at_limit:
  "(outstanding s core = outstanding_limit s \<longrightarrow>
      issue s core addr kind = Inl SequencerBusy \<and> \<not> fatal SequencerBusy)
   \<and> (outstanding s core < outstanding_limit s \<longrightarrow>
      (\<exists>t s'. issue s core addr kind = Inr (t, s')
         \<and> initiator t = core \<and> address t = addr
         \<and> outstanding s' core = Suc (outstanding s core)))"
  by (simp add: issue_def outstanding_def Let_def)

theorem issue_at_limit_witness:
  "outstanding \<lparr>outstanding_limit = 1, transactions = []\<rparr> 0 < 1
   \<and> (\<exists>t s'. issue \<lparr>outstanding_limit = 1, transactions = []\<rparr> 0 64 Store = Inr (t, s')
        \<and> outstanding s' 0 = outstanding_limit s'
        \<and> issue s' 0 128 Load = Inl SequencerBusy)"
proof -
  let ?s = "\<lparr>outstanding_limit = 1, transactions = []\<rparr>"
  have lt: "outstanding ?s 0 < outstanding_limit ?s"
    by (simp add: outstanding_def)
  with issue_at_limit [of ?s 0 64 Store] obtain t s' where
    i: "issue ?s 0 64 Store = Inr (t, s')" and o: "outstanding s' 0 = Suc (outstanding ?s 0)"
    by blast
  from i have "outstanding_limit s' = 1"
    by (auto simp: issue_def Let_def split: if_splits)
  with o have full: "outstanding s' 0 = outstanding_limit s'"
    by (simp add: outstanding_def)
  with issue_at_limit [of s' 0 128 Load] have "issue s' 0 128 Load = Inl SequencerBusy"
    by blast
  with lt i full show ?thesis by auto
qed

end
